theory Spec2Isabelle
  imports Main "HOL-Library.AList" "HOL-Library.Sublist" "HOL-Library.Word"
begin

section \<open>JavaScript values and completions\<close>

text \<open>
  The values a JavaScript expression can evaluate to. A Number is an IEEE 754 binary64
  value, held as its 64 bits; a BigInt is an integer; a Symbol is held by its description
  and a function by its source text. An object is the list of its own properties and an
  array the list of its elements: what else an object has (a prototype, accessors, a
  \<open>toJSON\<close> or \<open>toString\<close> method, a cycle) shows only through the builtins, which are
  parameters of the model.
\<close>

datatype js_value =
    Undefined
  | Null
  | Boolean bool
  | Number "64 word"
  | BigInt int
  | String string
  | Symbol string
  | Function string
  | Object "(string \<times> js_value) list"
  | Array "js_value list"

text \<open>The \<open>typeof\<close> operator. \<open>typeof null\<close> is \<open>"object"\<close>, and so is the type of an array.\<close>

fun typeof :: "js_value \<Rightarrow> string" where
  "typeof Undefined = ''undefined''"
| "typeof Null = ''object''"
| "typeof (Boolean b) = ''boolean''"
| "typeof (Number n) = ''number''"
| "typeof (BigInt n) = ''bigint''"
| "typeof (String s) = ''string''"
| "typeof (Symbol d) = ''symbol''"
| "typeof (Function f) = ''function''"
| "typeof (Object ps) = ''object''"
| "typeof (Array xs) = ''object''"

text \<open>
  What a \<open>throw\<close> raises. \<open>Error m\<close> is an Error object whose \<open>message\<close> property reads as
  \<open>m\<close>. \<open>Native c\<close> is an exception raised inside a builtin or by the host, named by its
  class: a TypeError when a Symbol is converted to a string, or when \<open>JSON.stringify\<close>
  meets a cyclic object or a BigInt.
\<close>

datatype js_exception = Error js_value | Native string

text \<open>
  A call either throws (\<open>Inl\<close>) or returns normally (\<open>Inr\<close>). A function whose body ends
  without \<open>return\<close> returns \<open>undefined\<close>, written \<open>Inr ()\<close>.
\<close>

type_synonym 'a completion = "js_exception + 'a"

subsection \<open>Builtins\<close>

text \<open>
  The builtins that \<open>panic\<close> reaches and that the language leaves to the engine or to the
  object at hand: \<open>JSON.stringify\<close> with its three arguments, which returns or throws; the
  decimal rendering of a Number; and the conversion of an object or a function to a
  primitive with the hint \<open>string\<close>, which calls the object's own methods and so returns or
  throws.
\<close>

record builtins =
  JSON_stringify :: "js_value \<Rightarrow> js_value \<Rightarrow> js_value \<Rightarrow> js_value completion"
  Number_toString :: "64 word \<Rightarrow> string"
  ToPrimitive :: "js_value \<Rightarrow> js_value completion"

text \<open>The decimal digits of a natural number, and the rendering of a BigInt.\<close>

fun digits :: "nat \<Rightarrow> string" where
  "digits n =
     (if n < 10 then [''0123456789'' ! n]
      else digits (n div 10) @ [''0123456789'' ! (n mod 10)])"

declare digits.simps [simp del]

definition BigInt_toString :: "int \<Rightarrow> string" where
  "BigInt_toString n = (if n < 0 then CHR ''-'' # digits (nat (- n)) else digits (nat n))"

text \<open>
  The abstract operation ToString on a primitive value. A Symbol has no string
  conversion: the operation throws a TypeError. (A value that is no primitive does not
  get here; ToPrimitive throws a TypeError rather than return one.)
\<close>

fun ToString_primitive :: "builtins \<Rightarrow> js_value \<Rightarrow> string completion" where
  "ToString_primitive B Undefined = Inr ''undefined''"
| "ToString_primitive B Null = Inr ''null''"
| "ToString_primitive B (Boolean b) = Inr (if b then ''true'' else ''false'')"
| "ToString_primitive B (Number n) = Inr (Number_toString B n)"
| "ToString_primitive B (BigInt n) = Inr (BigInt_toString n)"
| "ToString_primitive B (String s) = Inr s"
| "ToString_primitive B (Symbol d) = Inl (Native ''TypeError'')"
| "ToString_primitive B (Function f) = Inl (Native ''TypeError'')"
| "ToString_primitive B (Object ps) = Inl (Native ''TypeError'')"
| "ToString_primitive B (Array xs) = Inl (Native ''TypeError'')"

fun is_primitive :: "js_value \<Rightarrow> bool" where
  "is_primitive (Function f) = False"
| "is_primitive (Object ps) = False"
| "is_primitive (Array xs) = False"
| "is_primitive v = True"

text \<open>The abstract operation ToString: an object or a function is made a primitive first.\<close>

definition ToString :: "builtins \<Rightarrow> js_value \<Rightarrow> string completion" where
  "ToString B v =
     (if is_primitive v then ToString_primitive B v
      else (case ToPrimitive B v of
              Inl e \<Rightarrow> Inl e
            | Inr p \<Rightarrow> ToString_primitive B p))"

text \<open>
  \<open>new Error(message)\<close>. The constructor converts a message that is not \<open>undefined\<close> with
  ToString, which may throw, and stores the string as the \<open>message\<close> of the new object.
  With \<open>undefined\<close> it stores nothing, and \<open>message\<close> reads as the empty string of
  \<open>Error.prototype\<close>.
\<close>

definition new_Error :: "builtins \<Rightarrow> js_value \<Rightarrow> js_exception completion" where
  "new_Error B msg =
     (case msg of
        Undefined \<Rightarrow> Inr (Error (String []))
      | _ \<Rightarrow> (case ToString B msg of
                Inl e \<Rightarrow> Inl e
              | Inr s \<Rightarrow> Inr (Error (String s))))"

text \<open>
  Builtins to run \<open>panic\<close> on the examples below. They are right where the examples use
  them: \<open>JSON.stringify(null, null, 2)\<close> is \<open>"null"\<close>. On every other value they are fixed
  arbitrarily; the examples do not reach them there.
\<close>

definition sample_builtins :: builtins where
  "sample_builtins =
     \<lparr>JSON_stringify = (\<lambda>x replacer space.
        case x of Null \<Rightarrow> Inr (String ''null'') | _ \<Rightarrow> Inl (Native ''TypeError'')),
      Number_toString = (\<lambda>n. ''NaN''),
      ToPrimitive = (\<lambda>v. Inl (Native ''TypeError''))\<rparr>"

section \<open>The binding layer\<close>

subsection \<open>panic\<close>

text \<open>
  \<^verbatim>\<open>
  const panic = x => {
    if (typeof x === "object") {
      x = JSON.stringify(x, null, 2);
    }
    throw new Error(x);
  };
  \<close>
  The second argument of \<open>JSON.stringify\<close> is \<open>null\<close> and the third the Number 2, whose
  bits are \<open>0x4000000000000000\<close>. When \<open>JSON.stringify\<close> throws, or when \<open>new Error\<close>
  throws, \<open>panic\<close> throws what it threw; otherwise it throws the new Error.
\<close>

definition panic :: "builtins \<Rightarrow> js_value \<Rightarrow> unit completion" where
  "panic B x =
     (case (if typeof x = ''object''
            then JSON_stringify B x Null (Number 0x4000000000000000)
            else Inr x) of
        Inl e \<Rightarrow> Inl e
      | Inr x' \<Rightarrow>
          (case new_Error B x' of
             Inl e \<Rightarrow> Inl e
           | Inr err \<Rightarrow> Inl err))"

subsection \<open>ffi\<close>

text \<open>
  \<^verbatim>\<open>const ffi = (name, args) => Deno.core.opSync(name, args);\<close>
  \<open>Deno.core.opSync\<close> belongs to the host runtime: it is a parameter. The host has a
  state of its own (\<open>'h\<close>), which an op reads and changes; an op throws or returns.
\<close>

type_synonym ('a, 'r, 'h) opSync = "string \<Rightarrow> 'a \<Rightarrow> 'h \<Rightarrow> 'r completion \<times> 'h"

definition ffi :: "('a, 'r, 'h) opSync \<Rightarrow> string \<Rightarrow> 'a \<Rightarrow> 'h \<Rightarrow> 'r completion \<times> 'h" where
  "ffi opSync name args h = opSync name args h"

subsection \<open>EsCheck.Rule.new\<close>

text \<open>
  A rule specification is any object with a \<open>name\<close>: \<open>EsCheck.Rule.new\<close> reads no other
  property of it. The name is a string, the property key it is used as.
\<close>

record named =
  name :: string

text \<open>
  \<open>EsCheck.__ALL_RULES__\<close> starts as the empty object \<open>{}\<close> and is only ever written by
  \<open>obj[key] = value\<close>. It is the association list of the keys assigned so far, in the
  order of their first assignment, each with the value assigned last: assigning to a new
  key appends it, assigning to a key already there replaces its value in place. The list
  is the history of the assignments, which fixes the object: reading \<open>obj[key]\<close> after
  an assignment to \<open>key\<close> gives the value assigned last, for every key. It is not the
  order in which the object enumerates its properties (that is \<open>own_entries\<close> below), and
  what a read of a key never assigned gives (an inherited property) is not part of the
  model. The state also carries the host's.
\<close>

record ('s, 'h) EsCheck =
  ALL_RULES :: "(string \<times> 's) list"
  host :: 'h

definition EsCheck_init :: "'h \<Rightarrow> ('s, 'h) EsCheck" where
  "EsCheck_init h = \<lparr>ALL_RULES = [], host = h\<rparr>"

text \<open>
  \<^verbatim>\<open>
  EsCheck.Rule.new = (spec) => {
    EsCheck.__ALL_RULES__[spec.name] = spec;
    ffi("op_escheck_rule_new", spec)
  }
  \<close>
  The assignment comes first and is not undone when the host call throws. The value of
  the host call is dropped.
\<close>

definition Rule_new ::
  "('z named_scheme, 'r, 'h) opSync \<Rightarrow> 'z named_scheme \<Rightarrow> ('z named_scheme, 'h) EsCheck
     \<Rightarrow> unit completion \<times> ('z named_scheme, 'h) EsCheck" where
  "Rule_new opSync spec E =
     (let E1 = E\<lparr>ALL_RULES := AList.update (name spec) spec (ALL_RULES E)\<rparr>;
          (res, h') = ffi opSync ''op_escheck_rule_new'' spec (host E1)
      in (case res of Inl e \<Rightarrow> Inl e | Inr _ \<Rightarrow> Inr (), E1\<lparr>host := h'\<rparr>))"

text \<open>
  The own properties of the registry object, in the order in which JavaScript enumerates
  them (\<open>Object.keys\<close>, \<open>Object.values\<close>, \<open>Object.entries\<close>). On the plain object \<open>{}\<close> an
  assignment to the key \<open>"__proto__"\<close> sets the prototype and makes no own property. The
  keys that are array indices (the canonical decimal strings of the integers from 0 to
  \<open>2^32 - 2\<close>) come first, in ascending numeric order; the other keys follow in the order
  of their first assignment.
\<close>

definition is_digit :: "char \<Rightarrow> bool" where
  "is_digit c = (c \<in> set ''0123456789'')"

definition decimal_value :: "string \<Rightarrow> nat" where
  "decimal_value s = foldl (\<lambda>n c. 10 * n + (of_char c - 48)) 0 s"

definition array_index :: "string \<Rightarrow> bool" where
  "array_index s =
     (s \<noteq> [] \<and> list_all is_digit s \<and> (s = ''0'' \<or> hd s \<noteq> CHR ''0'')
      \<and> decimal_value s < 2 ^ 32 - 1)"

definition own_entries :: "(string \<times> 's) list \<Rightarrow> (string \<times> 's) list" where
  "own_entries al =
     (let own = filter (\<lambda>e. fst e \<noteq> ''__proto__'') al
      in sort_key (\<lambda>e. decimal_value (fst e)) (filter (\<lambda>e. array_index (fst e)) own)
         @ filter (\<lambda>e. \<not> array_index (fst e)) own)"


text \<open>
  A sequence of calls of \<open>EsCheck.Rule.new\<close>, one per specification, in order. Every call
  of the sequence is made, whatever the calls before it returned or threw.
\<close>

fun register_all ::
  "('z named_scheme, 'r, 'h) opSync \<Rightarrow> 'z named_scheme list \<Rightarrow> ('z named_scheme, 'h) EsCheck
     \<Rightarrow> ('z named_scheme, 'h) EsCheck" where
  "register_all opSync [] E = E"
| "register_all opSync (spec # specs) E = register_all opSync specs (snd (Rule_new opSync spec E))"

text \<open>Two hosts to run the binding layer against: one whose ops return, one whose ops throw.\<close>

definition opSync_ok :: "('a, js_value, unit) opSync" where
  "opSync_ok op args h = (Inr Undefined, h)"

definition opSync_throws :: "('a, js_value, unit) opSync" where
  "opSync_throws op args h = (Inl (Native ''TypeError''), h)"

section \<open>The no-ternary rule\<close>

text \<open>
  \<^verbatim>\<open>
  export default {
    meta: {
      type: "suggestion",
      docs: { description: "Disallow ternary operators", recommended: false,
              url: "https://eslint.org/docs/rules/no-ternary" },
      schema: [],
      messages: { noTernaryOperator: "Ternary operator used." }
    },
    create(context) {
      return {
        ConditionalExpression(node) {
          context.report({ node, messageId: "noTernaryOperator" });
        }
      };
    }
  };
  \<close>
\<close>

record rule_docs =
  description :: string
  recommended :: bool
  url :: string

record rule_meta =
  type :: string
  docs :: rule_docs
  schema :: "js_value list"
  messages :: "(string \<times> string) list"

text \<open>The object literal a handler passes to \<open>context.report\<close>.\<close>

record 'n report_descriptor =
  node :: 'n
  messageId :: string

text \<open>
  The rule's \<open>context\<close> comes from whoever runs the rule; the rule uses its \<open>report\<close>
  method only. \<open>'a\<close> is what a call of \<open>report\<close> does: the rule is written for every
  context, so it is polymorphic in it.
\<close>

record ('n, 'a) rule_context =
  report :: "'n report_descriptor \<Rightarrow> 'a"

text \<open>A visitor object: handler methods keyed by node kind, in the order of the literal.\<close>

type_synonym ('n, 'a) visitor = "(string \<times> ('n \<Rightarrow> 'a)) list"

record ('n, 'a) Rule =
  meta :: rule_meta
  create :: "('n, 'a) rule_context \<Rightarrow> ('n, 'a) visitor"

definition no_ternary :: "('n, 'a) Rule" where
  "no_ternary =
     \<lparr>meta =
        \<lparr>type = ''suggestion'',
         docs = \<lparr>description = ''Disallow ternary operators'',
                 recommended = False,
                 url = ''https://eslint.org/docs/rules/no-ternary''\<rparr>,
         schema = [],
         messages = [(''noTernaryOperator'', ''Ternary operator used.'')]\<rparr>,
      create = (\<lambda>ctx.
        [(''ConditionalExpression'',
          \<lambda>n. report ctx \<lparr>node = n, messageId = ''noTernaryOperator''\<rparr>)])\<rparr>"

text \<open>A context that only records the calls of \<open>report\<close>, in order.\<close>

definition recording_context :: "('n, 'n report_descriptor list \<Rightarrow> 'n report_descriptor list) rule_context" where
  "recording_context = \<lparr>report = (\<lambda>d calls. calls @ [d])\<rparr>"

subsection \<open>Rule definitions\<close>

text \<open>
  A RuleDefinition is a rule under the name it is registered with: the name that
  \<open>EsCheck.Rule.new\<close> reads, and the rule object, which carries the metadata and (through
  \<open>create\<close>) the mapping from node kinds to handlers. The source does not say what a
  registered object holds besides its name (the rule object of no-ternary.js has none);
  the pairing is the data model of the specification.
\<close>

record ('n, 'a) RuleDefinition = named +
  rule :: "('n, 'a) Rule"

text \<open>
  Two definitions with the same name and different contents, and one with a name of its
  own, to register.
\<close>

definition no_ternary_definition :: "(unit, unit) RuleDefinition" where
  "no_ternary_definition = \<lparr>name = ''no-ternary'', rule = no_ternary\<rparr>"

definition no_ternary_recommended :: "(unit, unit) RuleDefinition" where
  "no_ternary_recommended =
     \<lparr>name = ''no-ternary'',
      rule = no_ternary
        \<lparr>meta := (meta (no_ternary :: (unit, unit) Rule))
           \<lparr>docs := (docs (meta (no_ternary :: (unit, unit) Rule)))\<lparr>recommended := True\<rparr>\<rparr>\<rparr>\<rparr>"

definition no_else_return_definition :: "(unit, unit) RuleDefinition" where
  "no_else_return_definition = \<lparr>name = ''no-else-return'', rule = no_ternary\<rparr>"

section \<open>Registry queries and the dispatcher\<close>

text \<open>
  The source registers rules and defines one rule; it has no code that queries the
  registry or runs the rules over a tree. That part is written here from the
  specification's sections 3, 4 and 7, on top of the registry that \<open>EsCheck.Rule.new\<close>
  fills and of rule objects of the shape of the no-ternary rule.
\<close>

text \<open>
  Modelled from the spec: the Diagnostic (not in the source). It carries the rule name, a
  message identifier and a reference to the offending node.
\<close>

record 'n Diagnostic =
  ruleName :: string
  message :: string
  offending :: 'n

text \<open>
  Modelled from the spec: the error taxonomy of section 7 (not in the source). The cause
  of a RuleExecutionFailure is what the handler threw.
\<close>

datatype error =
    DuplicateRule string
  | UnknownRule string
  | RuleExecutionFailure string js_exception

text \<open>
  Modelled from the spec: what invoking a handler does (not in the source). A handler runs
  against the dispatcher's accumulator of diagnostics: it throws or returns, and either
  way leaves the accumulator as its reports made it.
\<close>

type_synonym 'n handler_effect = "'n Diagnostic list \<Rightarrow> unit completion \<times> 'n Diagnostic list"

text \<open>
  Modelled from the spec: the DispatchContext (not in the source). Its \<open>report\<close> appends a
  Diagnostic naming the rule being run to the accumulator; a report is never an error.
\<close>

definition DispatchContext :: "string \<Rightarrow> ('n, 'n handler_effect) rule_context" where
  "DispatchContext r =
     \<lparr>report = (\<lambda>d acc.
        (Inr (), acc @ [\<lparr>ruleName = r, message = messageId d, offending = node d\<rparr>]))\<rparr>"

text \<open>
  Modelled from the spec: the handler mapping of a definition (not in the source), as the
  dispatcher sees it: the visitor the rule creates for the dispatcher's context.
\<close>

definition handlers :: "('n, 'n handler_effect) RuleDefinition \<Rightarrow> ('n, 'n handler_effect) visitor" where
  "handlers d = create (rule d) (DispatchContext (name d))"

definition declares :: "string \<Rightarrow> ('n, 'n handler_effect) RuleDefinition \<Rightarrow> bool" where
  "declares k d = (map_of (handlers d) k \<noteq> None)"

text \<open>
  Modelled from the spec: \<open>allInterestedIn(nodeKind)\<close> (not in the source). The definitions
  of the registry whose handler mapping contains the kind, in insertion order; it has no
  error result. The registry of the spec keeps the insertion order of its names, and the
  function reads that order. The object of the source keeps it for plain names only.
\<close>

definition allInterestedIn ::
  "string \<Rightarrow> (('n, 'n handler_effect) RuleDefinition, 'h) EsCheck
     \<Rightarrow> ('n, 'n handler_effect) RuleDefinition list" where
  "allInterestedIn k E = filter (declares k) (map snd (ALL_RULES E))"

text \<open>Modelled from the spec: a syntax node carries its kind tag (not in the source).\<close>

record syntax_node =
  kind :: string

text \<open>
  Modelled from the spec: the Dispatcher (not in the source), with its state machine
  \<open>Idle \<rightarrow> Running \<rightarrow> Finished\<close> and the accumulator it owns.
\<close>

datatype phase = Idle | Running | Finished

record 'n Dispatcher =
  phase :: phase
  accumulator :: "'n Diagnostic list"

definition new_Dispatcher :: "'n Dispatcher" where
  "new_Dispatcher = \<lparr>phase = Idle, accumulator = []\<rparr>"

text \<open>
  Modelled from the spec: the loop of \<open>runOnNode\<close> over the interested rules (not in the
  source). Each rule's handler for the node's kind is invoked in turn; what a handler
  throws is wrapped as a RuleExecutionFailure with the rule's name and raised at once.
\<close>

fun run_rules ::
  "'p syntax_node_scheme \<Rightarrow> ('p syntax_node_scheme, 'p syntax_node_scheme handler_effect) RuleDefinition list
     \<Rightarrow> 'p syntax_node_scheme Diagnostic list
     \<Rightarrow> (error + unit) \<times> 'p syntax_node_scheme Diagnostic list" where
  "run_rules n [] acc = (Inr (), acc)"
| "run_rules n (d # ds) acc =
     (case map_of (handlers d) (kind n) of
        None \<Rightarrow> run_rules n ds acc
      | Some h \<Rightarrow>
          (case h n acc of
             (Inl e, acc') \<Rightarrow> (Inl (RuleExecutionFailure (name d) e), acc')
           | (Inr _, acc') \<Rightarrow> run_rules n ds acc'))"

text \<open>
  Modelled from the spec: \<open>runOnNode(node, registry)\<close> (not in the source). The dispatcher
  enters \<open>Running\<close>; the reports made are in its accumulator also when a handler failed.
  The spec gives a call on a finished dispatcher no behaviour (an instance is not reused),
  so the phase is recorded and not checked.
\<close>

definition runOnNode ::
  "'p syntax_node_scheme
     \<Rightarrow> (('p syntax_node_scheme, 'p syntax_node_scheme handler_effect) RuleDefinition, 'h) EsCheck
     \<Rightarrow> 'p syntax_node_scheme Dispatcher
     \<Rightarrow> (error + unit) \<times> 'p syntax_node_scheme Dispatcher" where
  "runOnNode n E D =
     (let (res, acc) = run_rules n (allInterestedIn (kind n) E) (accumulator D)
      in (res, D\<lparr>phase := Running, accumulator := acc\<rparr>))"

text \<open>
  Modelled from the spec: \<open>finish()\<close> (not in the source). It returns the accumulated
  diagnostics, resets the accumulator and ends the traversal.
\<close>

definition finish :: "'n Dispatcher \<Rightarrow> 'n Diagnostic list \<times> 'n Dispatcher" where
  "finish D = (accumulator D, D\<lparr>phase := Finished, accumulator := []\<rparr>)"

text \<open>
  Modelled from the spec: the external walker (not in the source), which calls
  \<open>runOnNode\<close> once per visited node, in order; a failure aborts the traversal.
\<close>

fun walk ::
  "'p syntax_node_scheme list
     \<Rightarrow> (('p syntax_node_scheme, 'p syntax_node_scheme handler_effect) RuleDefinition, 'h) EsCheck
     \<Rightarrow> 'p syntax_node_scheme Dispatcher
     \<Rightarrow> (error + unit) \<times> 'p syntax_node_scheme Dispatcher" where
  "walk [] E D = (Inr (), D)"
| "walk (n # ns) E D =
     (case runOnNode n E D of
        (Inl err, D') \<Rightarrow> (Inl err, D')
      | (Inr _, D') \<Rightarrow> walk ns E D')"

text \<open>A rule whose handler for conditional expressions throws, to run the dispatcher on.\<close>

definition faulty_rule :: "('n, 'n handler_effect) Rule" where
  "faulty_rule =
     \<lparr>meta = meta (no_ternary :: ('n, 'n handler_effect) Rule),
      create = (\<lambda>ctx.
        [(''ConditionalExpression'', \<lambda>n acc. (Inl (Error (String ''malformed node'')), acc))])\<rparr>"

text \<open>
  Two definitions over plain syntax nodes, registered under names of their own, and a
  node of kind \<open>"ConditionalExpression"\<close>.
\<close>

type_synonym node_definition = "(syntax_node, syntax_node handler_effect) RuleDefinition"

definition no_ternary_registered :: node_definition where
  "no_ternary_registered = \<lparr>name = ''no-ternary'', rule = no_ternary\<rparr>"

definition faulty_registered :: node_definition where
  "faulty_registered = \<lparr>name = ''faulty'', rule = faulty_rule\<rparr>"

definition conditional :: syntax_node where
  "conditional = \<lparr>kind = ''ConditionalExpression''\<rparr>"

section \<open>Properties\<close>

subsection \<open>What one registration does\<close>

lemma Rule_new_ALL_RULES:
  "ALL_RULES (snd (Rule_new opSync spec E)) = AList.update (name spec) spec (ALL_RULES E)"
  by (simp add: Rule_new_def Let_def split: prod.splits)

lemma Rule_new_host:
  "host (snd (Rule_new opSync spec E)) = snd (opSync ''op_escheck_rule_new'' spec (host E))"
  by (simp add: Rule_new_def ffi_def Let_def split: prod.splits)

lemma Rule_new_result:
  "fst (Rule_new opSync spec E) =
     (case fst (opSync ''op_escheck_rule_new'' spec (host E)) of Inl e \<Rightarrow> Inl e | Inr _ \<Rightarrow> Inr ())"
  by (simp add: Rule_new_def ffi_def Let_def split: prod.splits)

lemma Rule_new_stores:
  "map_of (ALL_RULES (snd (Rule_new opSync spec E))) = (map_of (ALL_RULES E))(name spec \<mapsto> spec)"
  by (simp add: Rule_new_ALL_RULES update_conv')

lemma register_all_keeps:
  "k \<notin> set (map name specs) \<Longrightarrow>
     map_of (ALL_RULES (register_all opSync specs E)) k = map_of (ALL_RULES E) k"
  by (induction specs arbitrary: E) (auto simp: Rule_new_stores)

lemma no_ternary_recommended_differs: "no_ternary_recommended \<noteq> no_ternary_definition"
proof
  assume "no_ternary_recommended = no_ternary_definition"
  then have "recommended (docs (meta (rule no_ternary_recommended)))
               = recommended (docs (meta (rule no_ternary_definition)))"
    by simp
  then show False
    by (simp add: no_ternary_recommended_def no_ternary_definition_def no_ternary_def)
qed

subsection \<open>Registering a name twice\<close>

text \<open>
  Claim C1, as the code has it. The claim says that the second registration of a name
  raises DuplicateRule and leaves the first definition in place. \<open>EsCheck.Rule.new\<close> has
  no such check: for every host, every state and every two definitions with the same
  name, after both calls the name maps to the second definition, and the second call
  throws exactly when its host call throws, and then what the host threw.
\<close>

theorem Rule_new_overwrites:
  assumes "name B = name A"
  shows "map_of (ALL_RULES (snd (Rule_new opSync B (snd (Rule_new opSync A E))))) (name A) = Some B
    \<and> fst (Rule_new opSync B (snd (Rule_new opSync A E)))
        = (case fst (opSync ''op_escheck_rule_new'' B (host (snd (Rule_new opSync A E)))) of
             Inl e \<Rightarrow> Inl e | Inr _ \<Rightarrow> Inr ())"
  using assms by (simp add: Rule_new_stores Rule_new_result)

theorem Rule_new_overwrites_witness:
  "name no_ternary_recommended = name no_ternary_definition
   \<and> map_of (ALL_RULES (snd (Rule_new opSync_ok no_ternary_recommended
          (snd (Rule_new opSync_ok no_ternary_definition (EsCheck_init ()))))))
        (name no_ternary_definition)
     = Some no_ternary_recommended
   \<and> fst (Rule_new opSync_ok no_ternary_recommended
          (snd (Rule_new opSync_ok no_ternary_definition (EsCheck_init ()))))
     = Inr ()"
proof -
  have same: "name no_ternary_recommended = name no_ternary_definition"
    by (simp add: no_ternary_recommended_def no_ternary_definition_def)
  show ?thesis
    using same Rule_new_overwrites [OF same, of opSync_ok "EsCheck_init ()"]
    by (simp add: opSync_ok_def)
qed

text \<open>
  Claim C1 as stated fails: on the empty registry, with a host whose ops return,
  registering \<open>no_ternary_definition\<close> and then \<open>no_ternary_recommended\<close>, which has the
  same name and differs from it, makes the second call return normally, and the name
  then maps to the second definition: the first one is no longer retrievable.
\<close>

theorem Rule_new_duplicate_counterexample:
  "name no_ternary_recommended = name no_ternary_definition
   \<and> no_ternary_recommended \<noteq> no_ternary_definition
   \<and> fst (Rule_new opSync_ok no_ternary_recommended
          (snd (Rule_new opSync_ok no_ternary_definition (EsCheck_init ()))))
     = Inr ()
   \<and> map_of (ALL_RULES (snd (Rule_new opSync_ok no_ternary_recommended
          (snd (Rule_new opSync_ok no_ternary_definition (EsCheck_init ()))))))
        (name no_ternary_definition)
     = Some no_ternary_recommended"
  using no_ternary_recommended_differs
  by (simp add: Rule_new_result Rule_new_stores opSync_ok_def
        no_ternary_recommended_def no_ternary_definition_def)

subsection \<open>Registration followed by lookup\<close>

text \<open>
  Claim C3. After any sequence of calls of \<open>EsCheck.Rule.new\<close> on specifications with
  pairwise distinct names, from any state and with any host (whether its calls return or
  throw), reading \<open>EsCheck.__ALL_RULES__\<close> at the name of any specification of the
  sequence gives exactly that specification.
\<close>

theorem register_lookup_roundtrip:
  assumes "distinct (map name specs)" and "spec \<in> set specs"
  shows "map_of (ALL_RULES (register_all opSync specs E)) (name spec) = Some spec"
  using assms
proof (induction specs arbitrary: E)
  case Nil
  then show ?case by simp
next
  case (Cons s specs)
  show ?case
  proof (cases "spec = s")
    case True
    with Cons.prems have "name spec \<notin> set (map name specs)" by auto
    then show ?thesis using True by (simp add: register_all_keeps Rule_new_stores)
  next
    case False
    with Cons.prems have "spec \<in> set specs" "distinct (map name specs)" by auto
    then show ?thesis using Cons.IH by simp
  qed
qed

theorem register_lookup_roundtrip_witness:
  "distinct (map name [no_ternary_definition, no_else_return_definition])
   \<and> no_else_return_definition \<in> set [no_ternary_definition, no_else_return_definition]
   \<and> map_of (ALL_RULES (register_all opSync_throws
          [no_ternary_definition, no_else_return_definition] (EsCheck_init ())))
        ''no-else-return''
       = Some no_else_return_definition"
  using register_lookup_roundtrip
    [of "[no_ternary_definition, no_else_return_definition]" no_else_return_definition
        opSync_throws "EsCheck_init ()"]
  by (simp add: no_ternary_definition_def no_else_return_definition_def)

subsection \<open>panic\<close>

text \<open>
  Claim C8, as the code has it. \<open>panic\<close> never returns normally: every call throws. When
  \<open>typeof x\<close> is \<open>"object"\<close> and \<open>JSON.stringify(x, null, 2)\<close> returns a string, the
  message of the Error thrown is that string; when it returns \<open>undefined\<close> the message is
  empty, and when it throws, \<open>panic\<close> throws what it threw. Otherwise the message of the
  Error thrown is the string conversion of \<open>x\<close>: \<open>x\<close> itself when \<open>x\<close> is a string, the
  empty string when \<open>x\<close> is \<open>undefined\<close>; when the conversion throws, \<open>panic\<close> throws what
  it threw, which for a Symbol is a TypeError.
\<close>

theorem panic_throws:
  "(\<exists>e. panic B x = Inl e)
   \<and> (typeof x = ''object'' \<longrightarrow>
        (\<forall>s. JSON_stringify B x Null (Number 0x4000000000000000) = Inr (String s)
              \<longrightarrow> panic B x = Inl (Error (String s)))
      \<and> (JSON_stringify B x Null (Number 0x4000000000000000) = Inr Undefined
              \<longrightarrow> panic B x = Inl (Error (String [])))
      \<and> (\<forall>e. JSON_stringify B x Null (Number 0x4000000000000000) = Inl e
              \<longrightarrow> panic B x = Inl e))
   \<and> (\<forall>s. x = String s \<longrightarrow> panic B x = Inl (Error x))
   \<and> (x = Undefined \<longrightarrow> panic B x = Inl (Error (String [])))
   \<and> (\<forall>d. x = Symbol d \<longrightarrow> panic B x = Inl (Native ''TypeError''))
   \<and> (typeof x \<noteq> ''object'' \<and> x \<noteq> Undefined \<longrightarrow>
        (\<forall>s. ToString B x = Inr s \<longrightarrow> panic B x = Inl (Error (String s)))
      \<and> (\<forall>e. ToString B x = Inl e \<longrightarrow> panic B x = Inl e))"
proof -
  have throws: "\<exists>e. panic B x = Inl e"
    by (auto simp: panic_def split: sum.splits)
  have obj: "typeof x = ''object'' \<Longrightarrow>
      panic B x = (case JSON_stringify B x Null (Number 0x4000000000000000) of
                     Inl e \<Rightarrow> Inl e
                   | Inr x' \<Rightarrow> (case new_Error B x' of Inl e \<Rightarrow> Inl e | Inr err \<Rightarrow> Inl err))"
    by (simp add: panic_def)
  have other: "typeof x \<noteq> ''object'' \<Longrightarrow>
      panic B x = (case new_Error B x of Inl e \<Rightarrow> Inl e | Inr err \<Rightarrow> Inl err)"
    by (simp add: panic_def)
  have str: "new_Error B (String s) = Inr (Error (String s))" for s
    by (simp add: new_Error_def ToString_def)
  have undef: "new_Error B Undefined = Inr (Error (String []))"
    by (simp add: new_Error_def)
  have sym: "new_Error B (Symbol d) = Inl (Native ''TypeError'')" for d
    by (simp add: new_Error_def ToString_def)
  have gen: "v \<noteq> Undefined \<Longrightarrow>
      new_Error B v = (case ToString B v of Inl e \<Rightarrow> Inl e | Inr s \<Rightarrow> Inr (Error (String s)))" for v
    by (cases v) (simp_all add: new_Error_def)
  have c2: "typeof x = ''object'' \<longrightarrow>
        (\<forall>s. JSON_stringify B x Null (Number 0x4000000000000000) = Inr (String s)
              \<longrightarrow> panic B x = Inl (Error (String s)))
      \<and> (JSON_stringify B x Null (Number 0x4000000000000000) = Inr Undefined
              \<longrightarrow> panic B x = Inl (Error (String [])))
      \<and> (\<forall>e. JSON_stringify B x Null (Number 0x4000000000000000) = Inl e
              \<longrightarrow> panic B x = Inl e)"
    by (simp add: obj str undef)
  have c3: "\<forall>s. x = String s \<longrightarrow> panic B x = Inl (Error x)"
    by (simp add: panic_def str)
  have c4: "x = Undefined \<longrightarrow> panic B x = Inl (Error (String []))"
    by (simp add: panic_def undef)
  have c5: "\<forall>d. x = Symbol d \<longrightarrow> panic B x = Inl (Native ''TypeError'')"
    by (simp add: panic_def sym)
  have c6: "typeof x \<noteq> ''object'' \<and> x \<noteq> Undefined \<longrightarrow>
        (\<forall>s. ToString B x = Inr s \<longrightarrow> panic B x = Inl (Error (String s)))
      \<and> (\<forall>e. ToString B x = Inl e \<longrightarrow> panic B x = Inl e)"
    by (simp add: other gen)
  from throws c2 c3 c4 c5 c6 show ?thesis
    by blast
qed

theorem panic_throws_witness:
  "typeof Null = ''object''
   \<and> JSON_stringify sample_builtins Null Null (Number 0x4000000000000000) = Inr (String ''null'')
   \<and> panic sample_builtins Null = Inl (Error (String ''null''))
   \<and> panic sample_builtins (String ''boom'') = Inl (Error (String ''boom''))
   \<and> panic sample_builtins Undefined = Inl (Error (String []))
   \<and> typeof (Boolean True) \<noteq> ''object'' \<and> Boolean True \<noteq> Undefined
   \<and> ToString sample_builtins (Boolean True) = Inr ''true''
   \<and> panic sample_builtins (Boolean True) = Inl (Error (String ''true''))"
proof -
  have s: "JSON_stringify sample_builtins Null Null (Number 0x4000000000000000) = Inr (String ''null'')"
    by (simp add: sample_builtins_def)
  have t: "ToString sample_builtins (Boolean True) = Inr ''true''"
    by (simp add: ToString_def)
  show ?thesis
    using s t panic_throws [of sample_builtins Null]
      panic_throws [of sample_builtins "String ''boom''"]
      panic_throws [of sample_builtins Undefined]
      panic_throws [of sample_builtins "Boolean True"]
    by simp
qed

text \<open>
  Claim C8 as stated fails: it says that for an \<open>x\<close> that is no object the Error thrown
  has \<open>x\<close> itself as its message. A Symbol is no object, and \<open>panic\<close> on it throws the
  TypeError of the string conversion inside \<open>new Error\<close>, not an Error with the symbol as
  message.
\<close>

theorem panic_symbol_counterexample:
  "typeof (Symbol ''id'') \<noteq> ''object''
   \<and> panic sample_builtins (Symbol ''id'') = Inl (Native ''TypeError'')
   \<and> panic sample_builtins (Symbol ''id'') \<noteq> Inl (Error (Symbol ''id''))"
  by (simp add: panic_def new_Error_def ToString_def)

subsection \<open>Registration is not atomic\<close>

text \<open>
  Claim C9. \<open>EsCheck.Rule.new(spec)\<close> assigns \<open>spec\<close> to \<open>EsCheck.__ALL_RULES__\<close> under
  \<open>spec.name\<close> and then calls the host op \<open>"op_escheck_rule_new"\<close> with \<open>spec\<close>, on the
  host state as it was. The registry after the call is the same whatever the host call
  does: when the host call throws, the call throws the same exception and \<open>spec\<close> is
  recorded all the same.
\<close>

theorem Rule_new_not_atomic:
  "ALL_RULES (snd (Rule_new opSync spec E)) = AList.update (name spec) spec (ALL_RULES E)
   \<and> map_of (ALL_RULES (snd (Rule_new opSync spec E))) (name spec) = Some spec
   \<and> host (snd (Rule_new opSync spec E)) = snd (opSync ''op_escheck_rule_new'' spec (host E))
   \<and> (\<forall>e. fst (opSync ''op_escheck_rule_new'' spec (host E)) = Inl e \<longrightarrow>
         fst (Rule_new opSync spec E) = Inl e
         \<and> map_of (ALL_RULES (snd (Rule_new opSync spec E))) (name spec) = Some spec)"
  by (simp add: Rule_new_ALL_RULES update_conv' Rule_new_host Rule_new_result)

theorem Rule_new_not_atomic_witness:
  "fst (opSync_throws ''op_escheck_rule_new'' no_ternary_definition (host (EsCheck_init ())))
       = Inl (Native ''TypeError'')
   \<and> fst (Rule_new opSync_throws no_ternary_definition (EsCheck_init ()))
       = Inl (Native ''TypeError'')
   \<and> map_of (ALL_RULES (snd (Rule_new opSync_throws no_ternary_definition (EsCheck_init ()))))
        (name no_ternary_definition)
       = Some no_ternary_definition"
proof -
  have throws: "fst (opSync_throws ''op_escheck_rule_new'' no_ternary_definition
                  (host (EsCheck_init ()))) = Inl (Native ''TypeError'')"
    by (simp add: opSync_throws_def)
  show ?thesis
    using throws Rule_new_not_atomic [of opSync_throws no_ternary_definition "EsCheck_init ()"]
    by (simp add: update_conv')
qed

subsection \<open>The no-ternary rule\<close>

text \<open>
  Claim C10. For every context, \<open>create(context)\<close> of the no-ternary rule is a visitor
  with the single key \<open>"ConditionalExpression"\<close>, whose handler does, on a node, exactly
  what one call of \<open>context.report\<close> with that node and the messageId
  \<open>"noTernaryOperator"\<close> does: against a context that records the calls, one invocation
  adds exactly that one call. The rule's \<open>schema\<close> is empty and it is not recommended.
\<close>

theorem no_ternary_rule:
  "create no_ternary ctx =
     [(''ConditionalExpression'', \<lambda>n. report ctx \<lparr>node = n, messageId = ''noTernaryOperator''\<rparr>)]
   \<and> map fst (create no_ternary ctx) = [''ConditionalExpression'']
   \<and> (\<exists>h. map_of (create no_ternary recording_context) ''ConditionalExpression'' = Some h
         \<and> (\<forall>n calls. h n calls = calls @ [\<lparr>node = n, messageId = ''noTernaryOperator''\<rparr>]))
   \<and> schema (meta no_ternary) = []
   \<and> recommended (docs (meta no_ternary)) = False"
  by (simp add: no_ternary_def recording_context_def)

section \<open>Properties of the registry queries and the dispatcher\<close>



lemma declares_no_ternary:
  "declares k \<lparr>name = r, rule = no_ternary\<rparr> = (k = ''ConditionalExpression'')"
  by (auto simp: declares_def handlers_def no_ternary_def)

lemma declares_faulty_rule:
  "declares k \<lparr>name = r, rule = faulty_rule\<rparr> = (k = ''ConditionalExpression'')"
  by (auto simp: declares_def handlers_def faulty_rule_def)

lemma declares_registered:
  "declares k faulty_registered = (k = ''ConditionalExpression'')"
  "declares k no_ternary_registered = (k = ''ConditionalExpression'')"
  by (simp_all add: faulty_registered_def no_ternary_registered_def
        declares_faulty_rule declares_no_ternary)

lemma names_registered: "name faulty_registered \<noteq> name no_ternary_registered"
  by (simp add: faulty_registered_def no_ternary_registered_def)

lemma run_rules_append:
  "run_rules n (pre @ ds) acc =
     (case run_rules n pre acc of
        (Inl err, acc') \<Rightarrow> (Inl err, acc')
      | (Inr u, acc') \<Rightarrow> run_rules n ds acc')"
  by (induction pre arbitrary: acc) (auto split: option.splits sum.splits prod.splits)

subsection \<open>allInterestedIn\<close>

text \<open>
  The order of enumeration against the order of assignment: array indices come first, in
  numeric order, and \<open>"__proto__"\<close> is no own property. For plain names the two orders are
  the same.
\<close>

lemma own_entries_example:
  "own_entries [(''b'', 1::nat), (''10'', 2), (''2'', 3), (''__proto__'', 4)]
     = [(''2'', 3), (''10'', 2), (''b'', 1)]"
  by (simp add: own_entries_def array_index_def is_digit_def decimal_value_def)





subsection \<open>A failing handler\<close>

text \<open>
  Claim C5. Let the rules interested in a node be \<open>pre @ d # post\<close>, let the handlers of
  \<open>pre\<close> return, and let the handler of \<open>d\<close> throw \<open>e\<close>. Then \<open>runOnNode\<close> raises
  RuleExecutionFailure with the name of \<open>d\<close> and the cause \<open>e\<close>; the outcome is the one
  of running \<open>pre @ [d]\<close> alone, whatever the rules of \<open>post\<close> are, so none of them is
  invoked; and the walker gets the error: a traversal that reaches the node ends with it.
\<close>

theorem runOnNode_fail_fast:
  assumes "allInterestedIn (kind n) E = pre @ d # post"
    and "run_rules n pre (accumulator D) = (Inr (), acc)"
    and "map_of (handlers d) (kind n) = Some h"
    and "h n acc = (Inl e, acc')"
  shows "runOnNode n E D
           = (Inl (RuleExecutionFailure (name d) e), D\<lparr>phase := Running, accumulator := acc'\<rparr>)
         \<and> run_rules n (pre @ d # post) (accumulator D) = run_rules n (pre @ [d]) (accumulator D)
         \<and> fst (walk (n # ns) E D) = Inl (RuleExecutionFailure (name d) e)"
  using assms by (simp add: runOnNode_def run_rules_append)

theorem runOnNode_fail_fast_witness:
  "allInterestedIn (kind conditional)
       (register_all opSync_ok [faulty_registered, no_ternary_registered] (EsCheck_init ()))
     = [] @ faulty_registered # [no_ternary_registered]
   \<and> run_rules conditional [] (accumulator new_Dispatcher) = (Inr (), [])
   \<and> map_of (handlers faulty_registered) (kind conditional)
       = Some (\<lambda>n acc. (Inl (Error (String ''malformed node'')), acc))
   \<and> runOnNode conditional
       (register_all opSync_ok [faulty_registered, no_ternary_registered] (EsCheck_init ()))
       new_Dispatcher
     = (Inl (RuleExecutionFailure ''faulty'' (Error (String ''malformed node''))),
        \<lparr>phase = Running, accumulator = []\<rparr>)"
proof -
  let ?E = "register_all opSync_ok [faulty_registered, no_ternary_registered] (EsCheck_init ())"
  let ?h = "\<lambda>(n :: syntax_node) (acc :: syntax_node Diagnostic list).
              (Inl (Error (String ''malformed node'')) :: unit completion, acc)"
  have a: "allInterestedIn (kind conditional) ?E = [] @ faulty_registered # [no_ternary_registered]"
    by (simp add: allInterestedIn_def Rule_new_ALL_RULES EsCheck_init_def declares_registered
          conditional_def names_registered)
  have b: "run_rules conditional [] (accumulator new_Dispatcher) = (Inr (), [])"
    by (simp add: new_Dispatcher_def)
  have c: "map_of (handlers faulty_registered) (kind conditional) = Some ?h"
    by (simp add: handlers_def faulty_registered_def faulty_rule_def conditional_def)
  have d: "?h conditional [] = (Inl (Error (String ''malformed node'')), [])"
    by simp
  show ?thesis
    using a b c runOnNode_fail_fast [OF a b c d]
    by (simp add: new_Dispatcher_def faulty_registered_def)
qed

subsection \<open>The no-ternary rule under the dispatcher\<close>

text \<open>
  Claim C2. With the no-ternary rule as the only registered rule, under any name \<open>r\<close>,
  walking three nodes of kinds \<open>"ConditionalExpression"\<close>, \<open>"Identifier"\<close> and
  \<open>"ConditionalExpression"\<close> with a new dispatcher succeeds, and \<open>finish()\<close> then returns
  exactly two diagnostics, both with the rule name \<open>r\<close>: one for the first node and one
  for the third, in that order.
\<close>

theorem dispatch_no_ternary:
  assumes "kind n1 = ''ConditionalExpression''"
    and "kind n2 = ''Identifier''"
    and "kind n3 = ''ConditionalExpression''"
  shows "fst (walk [n1, n2, n3]
                (snd (Rule_new opSync \<lparr>name = r, rule = no_ternary\<rparr> (EsCheck_init h)))
                new_Dispatcher) = Inr ()
    \<and> fst (finish (snd (walk [n1, n2, n3]
                (snd (Rule_new opSync \<lparr>name = r, rule = no_ternary\<rparr> (EsCheck_init h)))
                new_Dispatcher)))
        = [\<lparr>ruleName = r, message = ''noTernaryOperator'', offending = n1\<rparr>,
           \<lparr>ruleName = r, message = ''noTernaryOperator'', offending = n3\<rparr>]"
proof -
  let ?E = "snd (Rule_new opSync \<lparr>name = r, rule = no_ternary\<rparr> (EsCheck_init h))"
  have interested: "allInterestedIn k ?E
      = (if k = ''ConditionalExpression'' then [\<lparr>name = r, rule = no_ternary\<rparr>] else [])" for k
    by (simp add: allInterestedIn_def Rule_new_ALL_RULES EsCheck_init_def declares_no_ternary)
  have hs: "handlers \<lparr>name = r, rule = no_ternary\<rparr>
      = [(''ConditionalExpression'', \<lambda>n acc. (Inr (),
           acc @ [\<lparr>ruleName = r, message = ''noTernaryOperator'', offending = n\<rparr>]))]"
    by (simp add: handlers_def no_ternary_def DispatchContext_def)
  have hit: "kind n = ''ConditionalExpression'' \<Longrightarrow>
      runOnNode n ?E D = (Inr (), D\<lparr>phase := Running,
         accumulator := accumulator D @ [\<lparr>ruleName = r, message = ''noTernaryOperator'', offending = n\<rparr>]\<rparr>)" for n D
    by (simp add: runOnNode_def interested hs)
  have miss: "kind n = ''Identifier'' \<Longrightarrow>
      runOnNode n ?E D = (Inr (), D\<lparr>phase := Running\<rparr>)" for n D
    by (simp add: runOnNode_def interested)
  show ?thesis
    using assms by (simp add: hit miss finish_def new_Dispatcher_def)
qed

theorem dispatch_no_ternary_witness:
  "kind \<lparr>kind = ''ConditionalExpression'', \<dots> = (1::nat)\<rparr> = ''ConditionalExpression''
   \<and> kind \<lparr>kind = ''Identifier'', \<dots> = (2::nat)\<rparr> = ''Identifier''
   \<and> kind \<lparr>kind = ''ConditionalExpression'', \<dots> = (3::nat)\<rparr> = ''ConditionalExpression''
   \<and> fst (finish (snd (walk
         [\<lparr>kind = ''ConditionalExpression'', \<dots> = (1::nat)\<rparr>,
          \<lparr>kind = ''Identifier'', \<dots> = 2\<rparr>,
          \<lparr>kind = ''ConditionalExpression'', \<dots> = 3\<rparr>]
         (snd (Rule_new opSync_ok \<lparr>name = ''no-ternary'', rule = no_ternary\<rparr> (EsCheck_init ())))
         new_Dispatcher)))
      = [\<lparr>ruleName = ''no-ternary'', message = ''noTernaryOperator'',
           offending = \<lparr>kind = ''ConditionalExpression'', \<dots> = 1\<rparr>\<rparr>,
         \<lparr>ruleName = ''no-ternary'', message = ''noTernaryOperator'',
           offending = \<lparr>kind = ''ConditionalExpression'', \<dots> = 3\<rparr>\<rparr>]"
  using dispatch_no_ternary
    [of "\<lparr>kind = ''ConditionalExpression'', \<dots> = (1::nat)\<rparr>"
        "\<lparr>kind = ''Identifier'', \<dots> = (2::nat)\<rparr>"
        "\<lparr>kind = ''ConditionalExpression'', \<dots> = (3::nat)\<rparr>"
        opSync_ok "''no-ternary''" "()"]
  by simp

end
